theory Spec2Isabelle
  imports Main "HOL-Library.Sublist" "HOL-Library.Char_ord" "HOL-Library.List_Lexorder"
begin

section \<open>Python values used by the Compass client\<close>

text \<open>
  Python strings are sequences of code points. The model uses \<open>string\<close>, whose
  characters are the code points below 256 (Latin-1); every identifier, literal and
  page token of the client lies in that range. Python integers are \<open>int\<close>.
\<close>

type_synonym Rid = string
type_synonym ProjectRid = string
type_synonym FoundryPath = string

definition code_point :: "char \<Rightarrow> nat" where
  "code_point c = of_char c"

definition is_digit :: "char \<Rightarrow> bool" where
  "is_digit c = (48 \<le> code_point c \<and> code_point c \<le> 57)"

text \<open>\<open>str.isdecimal()\<close>: a non-empty string all of whose characters are decimal
  digits. Below code point 256 the only characters of category Nd are \<open>0\<close> to \<open>9\<close>.\<close>

definition isdecimal :: "string \<Rightarrow> bool" where
  "isdecimal s = (s \<noteq> [] \<and> list_all is_digit s)"

definition digit_value :: "char \<Rightarrow> nat" where
  "digit_value c = code_point c - 48"

definition dec_value :: "string \<Rightarrow> nat" where
  "dec_value s = foldl (\<lambda>a c. 10 * a + digit_value c) 0 s"

text \<open>The characters \<open>int\<close> skips around a literal: the ASCII white space 9 to 13 and
  32, and the two non-ASCII spaces below code point 256 (133 and 160), which \<open>int\<close>
  turns into blanks first. The separators 28 to 31 are not skipped.\<close>

definition int_space :: "char \<Rightarrow> bool" where
  "int_space c = (let n = code_point c in
     (9 \<le> n \<and> n \<le> 13) \<or> n = 32 \<or> n = 133 \<or> n = 160)"

fun no_double_underscore :: "string \<Rightarrow> bool" where
  "no_double_underscore (a # b # r) =
     (\<not> (a = CHR ''_'' \<and> b = CHR ''_'') \<and> no_double_underscore (b # r))"
| "no_double_underscore r = True"

text \<open>The default of \<open>sys.int_max_str_digits\<close>: \<open>int\<close> refuses a literal with more
  decimal digits.\<close>

definition int_max_str_digits :: nat where
  "int_max_str_digits = 4300"

datatype int_failure = InvalidLiteral | TooManyDigits nat

text \<open>\<open>int(s)\<close> on a string, base 10, in the order CPython checks: leading space and one
  sign are dropped; the run of digits and underscores may not start with an underscore,
  hold two underscores in a row or end with one; more than \<open>int_max_str_digits\<close> digits
  are refused; the run may not be empty, and only space may follow it. \<open>Inl\<close> is the
  \<open>ValueError\<close> that \<open>int\<close> raises.\<close>

definition py_int :: "string \<Rightarrow> int_failure + int" where
  "py_int s =
     (let s1 = dropWhile int_space s;
          (negative, s2) =
            (case s1 of
               [] \<Rightarrow> (False, [])
             | c # r \<Rightarrow>
                 if c = CHR ''+'' then (False, r)
                 else if c = CHR ''-'' then (True, r)
                 else (False, c # r));
          run = takeWhile (\<lambda>c. is_digit c \<or> c = CHR ''_'') s2;
          rest = dropWhile (\<lambda>c. is_digit c \<or> c = CHR ''_'') s2;
          digits = filter is_digit run
      in if run \<noteq> [] \<and> hd run = CHR ''_'' then Inl InvalidLiteral
         else if \<not> no_double_underscore run then Inl InvalidLiteral
         else if run \<noteq> [] \<and> last run = CHR ''_'' then Inl InvalidLiteral
         else if length digits > int_max_str_digits then Inl (TooManyDigits (length digits))
         else if run = [] then Inl InvalidLiteral
         else if dropWhile int_space rest \<noteq> [] then Inl InvalidLiteral
         else Inr ((if negative then - 1 else 1) * int (dec_value digits)))"

definition digit_char :: "nat \<Rightarrow> char" where
  "digit_char d = char_of (48 + d)"

fun str_nat :: "nat \<Rightarrow> string" where
  "str_nat n = (if n < 10 then [digit_char n] else str_nat (n div 10) @ [digit_char (n mod 10)])"

declare str_nat.simps [simp del]

text \<open>\<open>str(i)\<close> for an integer, as an f-string formats it.\<close>

definition str_int :: "int \<Rightarrow> string" where
  "str_int i = (if i < 0 then CHR ''-'' # str_nat (nat (- i)) else str_nat (nat i))"

subsection \<open>\<open>repr\<close> of strings and tuples of strings\<close>

definition hex_char :: "nat \<Rightarrow> char" where
  "hex_char d = (if d < 10 then char_of (48 + d) else char_of (87 + d))"

definition printable :: "char \<Rightarrow> bool" where
  "printable c = (let n = code_point c in
     \<not> (n < 32 \<or> (127 \<le> n \<and> n \<le> 160) \<or> n = 173))"

definition repr_quote :: "string \<Rightarrow> char" where
  "repr_quote s =
     (if CHR 0x27 \<in> set s \<and> CHR 0x22 \<notin> set s then CHR 0x22 else CHR 0x27)"

definition repr_char :: "char \<Rightarrow> char \<Rightarrow> string" where
  "repr_char q c =
     (if c = q \<or> c = CHR 0x5C then [CHR 0x5C, c]
      else if c = CHR 0x09 then [CHR 0x5C, CHR ''t'']
      else if c = CHR 0x0A then [CHR 0x5C, CHR ''n'']
      else if c = CHR 0x0D then [CHR 0x5C, CHR ''r'']
      else if \<not> printable c
        then [CHR 0x5C, CHR ''x'', hex_char (code_point c div 16), hex_char (code_point c mod 16)]
      else [c])"

definition repr_str :: "string \<Rightarrow> string" where
  "repr_str s = (let q = repr_quote s in q # concat (map (repr_char q) s) @ [q])"

fun join :: "string \<Rightarrow> string list \<Rightarrow> string" where
  "join sep [] = []"
| "join sep [x] = x"
| "join sep (x # y # r) = x @ sep @ join sep (y # r)"

text \<open>\<open>repr\<close> of a tuple of strings, which is what \<open>{options}\<close> formats to.\<close>

definition repr_tuple :: "string list \<Rightarrow> string" where
  "repr_tuple xs =
     (case xs of
        [] \<Rightarrow> ''()''
      | [x] \<Rightarrow> ''('' @ repr_str x @ '',)''
      | _ \<Rightarrow> ''('' @ join '', '' (map repr_str xs) @ '')'')"

section \<open>Errors\<close>

text \<open>A response of the dispatcher, as far as the client reads it.\<close>

record 'j response =
  status_code :: nat
  json_body :: 'j

text \<open>\<open>ErrorHandlingConfig(info=..., **kwargs)\<close>: the context handed to the error
  raised; \<open>rids\<close> is the one keyword the trash operations pass.\<close>

record ErrorHandlingConfig =
  info :: "string option"
  rids :: "Rid set option"

datatype py_error =
    TypeError string
  | ValueError string
  | FoundryAPIError nat ErrorHandlingConfig
  | DispatchError string

section \<open>\<open>api_types.assert_in_literal\<close>\<close>

text \<open>A \<open>Literal[...]\<close> is represented by the tuple \<open>get_args\<close> returns for it.\<close>

type_synonym literal = "string list"

definition get_args :: "literal \<Rightarrow> string list" where
  "get_args l = l"

definition assert_in_literal_msg :: "string \<Rightarrow> string list \<Rightarrow> string \<Rightarrow> string" where
  "assert_in_literal_msg option options variable_name =
     [CHR 0x27] @ option @ [CHR 0x27] @ '' is not a valid option for '' @ variable_name
       @ '', valid options are '' @ repr_tuple options"

definition assert_in_literal :: "string \<Rightarrow> literal \<Rightarrow> string \<Rightarrow> py_error + unit" where
  "assert_in_literal option literal variable_name =
     (let options = get_args literal in
      if option \<notin> set options
      then Inl (TypeError (assert_in_literal_msg option options variable_name))
      else Inr ())"

definition FoundryTransaction :: literal where
  "FoundryTransaction = [''SNAPSHOT'', ''UPDATE'', ''APPEND'', ''DELETE'']"

section \<open>\<open>CompassClient.resource_exists\<close>\<close>

text \<open>\<open>api_resources_exist(rids).json()\<close> is a parameter: the dispatcher either raises
  or answers with a mapping from identifiers to booleans.\<close>

definition resources_exist ::
  "(Rid set \<Rightarrow> py_error + (Rid \<rightharpoonup> bool)) \<Rightarrow> Rid set \<Rightarrow> py_error + (Rid \<rightharpoonup> bool)" where
  "resources_exist api_resources_exist rs = api_resources_exist rs"

definition dict_get :: "('k \<rightharpoonup> 'v) \<Rightarrow> 'k \<Rightarrow> 'v \<Rightarrow> 'v" where
  "dict_get d k dflt = (case d k of None \<Rightarrow> dflt | Some v \<Rightarrow> v)"

definition resource_exists ::
  "(Rid set \<Rightarrow> py_error + (Rid \<rightharpoonup> bool)) \<Rightarrow> Rid \<Rightarrow> py_error + bool" where
  "resource_exists api_resources_exist rid =
     (case resources_exist api_resources_exist {rid} of
        Inl e \<Rightarrow> Inl e
      | Inr result \<Rightarrow> Inr (dict_get result rid False))"

section \<open>Trash operations\<close>

record 'j request =
  req_method :: string
  req_path :: string
  req_headers :: "(string \<times> string) list option"
  req_json :: 'j

text \<open>Modelled from the spec: \<open>raise_foundry_api_error\<close> of
  \<open>foundry_dev_tools.errors.handling\<close>, which is not among the sources. The spec has
  the no-content operations "treat any other status as a failure and raise with
  contextual information": the helper raises an API error that carries the response
  status and the configuration it was given. \<open>None\<close> would be a normal return.\<close>

definition raise_foundry_api_error :: "'j response \<Rightarrow> ErrorHandlingConfig \<Rightarrow> py_error option" where
  "raise_foundry_api_error resp cfg = Some (FoundryAPIError (status_code resp) cfg)"

definition no_content :: nat where
  "no_content = 204"

text \<open>\<open>{"User-Bearer-Token": f"Bearer {user_bearer_token}"} if user_bearer_token else None\<close>:
  an absent and an empty token are both false.\<close>

definition bearer_headers :: "string option \<Rightarrow> (string \<times> string) list option" where
  "bearer_headers user_bearer_token =
     (case user_bearer_token of
        None \<Rightarrow> None
      | Some t \<Rightarrow> if t = [] then None else Some [(''User-Bearer-Token'', ''Bearer '' @ t)])"

text \<open>\<open>api_request\<close> is a parameter: it raises or returns a response. The JSON body
  \<open>list(rids)\<close> is the set's members in no specified order, kept as the set.\<close>

definition api_add_to_trash ::
  "(Rid set request \<Rightarrow> py_error + 'j response) \<Rightarrow> Rid set \<Rightarrow> string option
     \<Rightarrow> py_error + 'j response" where
  "api_add_to_trash api_request rs user_bearer_token =
     (case api_request \<lparr>req_method = ''POST'', req_path = ''batch/trash/add'',
                        req_headers = bearer_headers user_bearer_token, req_json = rs\<rparr> of
        Inl e \<Rightarrow> Inl e
      | Inr resp \<Rightarrow>
          if status_code resp \<noteq> no_content
          then (case raise_foundry_api_error resp
                       \<lparr>info = Some ''Issue while moving resource(s) to trash.'',
                        rids = Some rs\<rparr> of
                  Some e \<Rightarrow> Inl e
                | None \<Rightarrow> Inr resp)
          else Inr resp)"

definition api_restore ::
  "(Rid set request \<Rightarrow> py_error + 'j response) \<Rightarrow> Rid set \<Rightarrow> string option
     \<Rightarrow> py_error + 'j response" where
  "api_restore api_request rs user_bearer_token =
     (case api_request \<lparr>req_method = ''POST'', req_path = ''batch/trash/restore'',
                        req_headers = bearer_headers user_bearer_token, req_json = rs\<rparr> of
        Inl e \<Rightarrow> Inl e
      | Inr resp \<Rightarrow>
          if status_code resp \<noteq> no_content
          then (case raise_foundry_api_error resp
                       \<lparr>info = Some ''Issue while restoring resource(s) from trash.'',
                        rids = None\<rparr> of
                  Some e \<Rightarrow> Inl e
                | None \<Rightarrow> Inr resp)
          else Inr resp)"

section \<open>Batched lookups: \<open>get_paths\<close> and \<open>get_projects_by_rids\<close>\<close>

definition GET_PATHS_BATCH_SIZE :: nat where
  "GET_PATHS_BATCH_SIZE = 100"

definition GET_PROJECTS_BATCH_SIZE :: nat where
  "GET_PROJECTS_BATCH_SIZE = 1"

text \<open>\<open>range(0, stop, step)\<close> for a positive step, and the slice \<open>xs[i : j]\<close> for
  \<open>0 \<le> i \<le> j\<close> (a slice that runs past the end is cut, it does not raise).\<close>

definition py_range :: "nat \<Rightarrow> nat \<Rightarrow> nat list" where
  "py_range stop step = map (\<lambda>k. k * step) [0 ..< (stop + step - 1) div step]"

definition py_slice :: "'a list \<Rightarrow> nat \<Rightarrow> nat \<Rightarrow> 'a list" where
  "py_slice xs i j = take (j - i) (drop i xs)"

definition get_paths_batches :: "Rid list \<Rightarrow> Rid list list" where
  "get_paths_batches resource_ids =
     (let list_len = length resource_ids in
      if list_len < GET_PATHS_BATCH_SIZE then [resource_ids]
      else map (\<lambda>i. py_slice resource_ids i (i + GET_PATHS_BATCH_SIZE))
               (py_range list_len GET_PATHS_BATCH_SIZE))"

definition get_projects_batches :: "ProjectRid list \<Rightarrow> ProjectRid list list" where
  "get_projects_batches rs =
     (let list_len = length rs in
      if list_len < GET_PATHS_BATCH_SIZE then [rs]
      else map (\<lambda>i. py_slice rs i (i + GET_PATHS_BATCH_SIZE))
               (py_range list_len GET_PROJECTS_BATCH_SIZE))"

text \<open>The loop over the batches. The batch call is a parameter (it raises or answers
  with a dict); the calls made are logged next to the result. Both
  \<open>{**result, **d}\<close> and \<open>result.update(d)\<close> are \<open>result ++ d\<close>.\<close>

fun merge_batches ::
  "(Rid list \<Rightarrow> py_error + (Rid \<rightharpoonup> 'v)) \<Rightarrow> Rid list list \<Rightarrow> (Rid \<rightharpoonup> 'v) \<Rightarrow> Rid list list
     \<Rightarrow> Rid list list \<times> (py_error + (Rid \<rightharpoonup> 'v))" where
  "merge_batches api [] result calls = (calls, Inr result)"
| "merge_batches api (batch # batches) result calls =
     (case api batch of
        Inl e \<Rightarrow> (calls @ [batch], Inl e)
      | Inr d \<Rightarrow> merge_batches api batches (result ++ d) (calls @ [batch]))"

definition get_paths ::
  "(Rid list \<Rightarrow> py_error + (Rid \<rightharpoonup> FoundryPath)) \<Rightarrow> Rid list
     \<Rightarrow> Rid list list \<times> (py_error + (Rid \<rightharpoonup> FoundryPath))" where
  "get_paths api_get_paths resource_ids =
     merge_batches api_get_paths (get_paths_batches resource_ids) Map.empty []"

definition get_projects_by_rids ::
  "(ProjectRid list \<Rightarrow> py_error + (ProjectRid \<rightharpoonup> 'v)) \<Rightarrow> ProjectRid list
     \<Rightarrow> ProjectRid list list \<times> (py_error + (ProjectRid \<rightharpoonup> 'v))" where
  "get_projects_by_rids api_get_projects_by_rids rs =
     merge_batches api_get_projects_by_rids (get_projects_batches rs) Map.empty []"

text \<open>Identifiers and a server for concrete runs: the server answers exactly the
  identifiers it is asked for.\<close>

definition example_rid :: "nat \<Rightarrow> Rid" where
  "example_rid n = ''ri.compass.main.folder.'' @ str_nat n"

definition example_rids :: "nat \<Rightarrow> Rid list" where
  "example_rids n = map example_rid [0 ..< n]"

definition answer_all :: "Rid list \<Rightarrow> py_error + (Rid \<rightharpoonup> string)" where
  "answer_all batch = Inr (map_of (map (\<lambda>r. (r, ''/ns/'' @ r)) batch))"

section \<open>Decorations: \<open>get_decoration\<close>\<close>

definition ResourceDecoration :: literal where
  "ResourceDecoration =
     [''description'', ''favorite'', ''branches'', ''defaultBranch'',
      ''defaultBranchWithMarkings'', ''branchesCount'', ''hasBranches'',
      ''hasMultipleBranches'', ''backedObjectTypes'', ''path'', ''longDescription'',
      ''inTrash'', ''collections'', ''namedCollections'', ''tags'', ''namedTags'',
      ''alias'', ''collaborators'', ''namedAncestors'', ''markings'',
      ''projectAccessMarkings'', ''linkedItems'', ''contactInformation'',
      ''classification'', ''disableInheritedPermissions'', ''propagatePermissions'',
      ''resourceLevelRoleGrantsAllowed'']"

definition ALL_RESOURCE_DECORATIONS :: "string set" where
  "ALL_RESOURCE_DECORATIONS =
     {''description'', ''favorite'', ''branches'', ''defaultBranch'',
      ''defaultBranchWithMarkings'', ''branchesCount'', ''hasBranches'',
      ''hasMultipleBranches'', ''backedObjectTypes'', ''path'', ''longDescription'',
      ''inTrash'', ''collections'', ''namedCollections'', ''tags'', ''namedTags'',
      ''alias'', ''collaborators'', ''namedAncestors'', ''markings'',
      ''projectAccessMarkings'', ''linkedItems'', ''contactInformation'',
      ''classification'', ''disableInheritedPermissions'', ''propagatePermissions'',
      ''resourceLevelRoleGrantsAllowed''}"

text \<open>The argument \<open>decoration\<close> is \<open>None\<close>, the string \<open>"all"\<close> or a set of strings,
  and the result is \<open>None\<close>, a list or a set.\<close>

datatype decoration = All | Decorations "string set"

datatype decoration_result = AsList "string list" | AsSet "string set"

fun members :: "decoration_result \<Rightarrow> string set" where
  "members (AsList l) = set l"
| "members (AsSet s) = s"

text \<open>\<open>list(s)\<close> of a set gives its elements in an order Python does not specify; the
  conversion is the parameter \<open>to_list\<close>.\<close>

definition get_decoration ::
  "(string set \<Rightarrow> string list) \<Rightarrow> decoration option \<Rightarrow> bool \<Rightarrow> decoration_result option" where
  "get_decoration to_list decoration conv =
     (case decoration of
        Some All \<Rightarrow>
          Some (if conv then AsList (to_list ALL_RESOURCE_DECORATIONS)
                else AsSet ALL_RESOURCE_DECORATIONS)
      | None \<Rightarrow> None
      | Some (Decorations s) \<Rightarrow> Some (if conv then AsList (to_list s) else AsSet s))"

text \<open>What every \<open>list(s)\<close> satisfies: the elements of the set, each once.\<close>

definition lists_sets :: "(string set \<Rightarrow> string list) \<Rightarrow> bool" where
  "lists_sets to_list = (\<forall>s. finite s \<longrightarrow> set (to_list s) = s \<and> distinct (to_list s))"

section \<open>Cursor-based listing: \<open>get_child_objects_of_folder\<close>\<close>

record 'a page =
  page_values :: "'a list"
  nextPageToken :: "string option"

text \<open>The generator \<open>get_child_objects_of_folder\<close>. The parameter \<open>api_get_children\<close> is
  the call \<open>self.api_get_children(..., page_token=page_token).json()\<close> with every other
  argument fixed; it raises or returns a page. The result is what was yielded, the page
  tokens requested in order, and the exception that ended the generator, if any;
  \<open>None\<close> is a loop that never ends.\<close>

partial_function (option) children_loop ::
  "(string option \<Rightarrow> py_error + 'a page) \<Rightarrow> string option \<Rightarrow> 'a list \<Rightarrow> string option list
     \<Rightarrow> ('a list \<times> string option list \<times> py_error option) option" where
  "children_loop api_get_children page_token yielded requested =
     (case api_get_children page_token of
        Inl e \<Rightarrow> Some (yielded, requested @ [page_token], Some e)
      | Inr response_as_json \<Rightarrow>
          (case nextPageToken response_as_json of
             None \<Rightarrow>
               Some (yielded @ page_values response_as_json, requested @ [page_token], None)
           | Some t \<Rightarrow>
               children_loop api_get_children (Some t)
                 (yielded @ page_values response_as_json) (requested @ [page_token])))"

definition get_child_objects_of_folder ::
  "(string option \<Rightarrow> py_error + 'a page)
     \<Rightarrow> ('a list \<times> string option list \<times> py_error option) option" where
  "get_child_objects_of_folder api_get_children = children_loop api_get_children None [] []"

text \<open>Modelled from the spec: the server side of a listing "over a fixed, unchanging
  backing collection", sliced with a fixed page size. The server is not part of the
  repository; here the page token is the decimal offset of the next page, and the last
  page carries no token.\<close>

definition paged_server :: "nat \<Rightarrow> 'a list \<Rightarrow> string option \<Rightarrow> py_error + 'a page" where
  "paged_server page_size backing page_token =
     (let offset = (case page_token of None \<Rightarrow> 0 | Some t \<Rightarrow> dec_value t) in
      Inr \<lparr>page_values = take page_size (drop offset backing),
           nextPageToken = (if offset + page_size < length backing
                            then Some (str_nat (offset + page_size)) else None)\<rparr>)"

section \<open>Project search: \<open>api_search_projects\<close> and \<open>search_projects\<close>\<close>

definition DEFAULT_PROJECTS_PAGE_SIZE :: int where
  "DEFAULT_PROJECTS_PAGE_SIZE = 100"

definition MINIMUM_PROJECTS_PAGE_SIZE :: int where
  "MINIMUM_PROJECTS_PAGE_SIZE = 1"

definition MAXIMUM_PROJECTS_PAGE_SIZE :: int where
  "MAXIMUM_PROJECTS_PAGE_SIZE = 500"

definition MINIMUM_PROJECTS_SEARCH_OFFSET :: int where
  "MINIMUM_PROJECTS_SEARCH_OFFSET = 0"

definition MAXIMUM_PROJECTS_SEARCH_OFFSET :: int where
  "MAXIMUM_PROJECTS_SEARCH_OFFSET = 500"

text \<open>The search arguments that go into the request body unchanged.\<close>

record search_filters =
  query :: "string option"
  organizations :: "Rid set option"
  tags :: "Rid set option"
  roles :: "string set option"
  includeHomeProjects :: "bool option"
  directRoleGrantPrincipalIds :: "(string \<times> string set) list option"
  sort_spec :: "(string \<times> string) option"

record search_body =
  filters :: search_filters
  decorations :: "decoration_result option"
  pageSize :: int
  pageToken :: "string option"

definition page_size_small_msg :: "int \<Rightarrow> string" where
  "page_size_small_msg page_size =
     ''Parameter `page_size` ('' @ str_int page_size @ '') is less than ''
     @ ''the minimum page size ('' @ str_int MINIMUM_PROJECTS_PAGE_SIZE @ ''). ''
     @ ''Defaulting to '' @ str_int MINIMUM_PROJECTS_PAGE_SIZE @ ''.''"

definition page_size_large_msg :: "int \<Rightarrow> string" where
  "page_size_large_msg page_size =
     ''Parameter `page_size` ('' @ str_int page_size @ '') is greater than ''
     @ ''the maximum page size ('' @ str_int MAXIMUM_PROJECTS_PAGE_SIZE @ ''). ''
     @ ''Defaulting to '' @ str_int MAXIMUM_PROJECTS_SEARCH_OFFSET @ ''.''"

definition token_not_decimal_msg :: "string \<Rightarrow> string" where
  "token_not_decimal_msg page_token =
     ''Parameter `page_token` ('' @ page_token @ '') is expected to contain a number ''
     @ ''as the starting offset for the request. ''
     @ ''The search offset must be within the range from ''
     @ str_int MINIMUM_PROJECTS_SEARCH_OFFSET @ '' to ''
     @ str_int MAXIMUM_PROJECTS_SEARCH_OFFSET @ ''.''"

definition token_small_msg :: "int \<Rightarrow> string" where
  "token_small_msg page_token_int =
     ''Parameter `page_token` ('' @ str_int page_token_int @ '') is less than ''
     @ ''the minimum search offset ('' @ str_int MINIMUM_PROJECTS_SEARCH_OFFSET @ '')''"

definition token_large_msg :: "int \<Rightarrow> string" where
  "token_large_msg page_token_int =
     ''Parameter `page_token` ('' @ str_int page_token_int @ '') is greater than ''
     @ ''the maximum search offset ('' @ str_int MAXIMUM_PROJECTS_SEARCH_OFFSET @ '')''"

text \<open>The messages of the \<open>ValueError\<close> of \<open>int\<close>: the repr of the argument is cut to
  200 characters.\<close>

definition int_error_msg :: "string \<Rightarrow> int_failure \<Rightarrow> string" where
  "int_error_msg s f =
     (case f of
        InvalidLiteral \<Rightarrow>
          ''invalid literal for int() with base 10: '' @ take 200 (repr_str s)
      | TooManyDigits n \<Rightarrow>
          ''Exceeds the limit ('' @ str_nat int_max_str_digits
          @ '' digits) for integer string conversion: value has '' @ str_nat n
          @ '' digits; use sys.set_int_max_str_digits() to increase the limit'')"

text \<open>\<open>api_search_projects\<close>. The dispatcher \<open>api_request\<close> is a parameter. The result
  is the warnings issued, the request bodies dispatched (none or one) and the outcome:
  the exception raised or what the dispatcher returned.\<close>

definition api_search_projects ::
  "(string set \<Rightarrow> string list) \<Rightarrow> (search_body \<Rightarrow> py_error + 'r) \<Rightarrow> search_filters
     \<Rightarrow> decoration option \<Rightarrow> int \<Rightarrow> string option
     \<Rightarrow> string list \<times> search_body list \<times> (py_error + 'r)" where
  "api_search_projects to_list api_request fs decs page_size page_token =
     (let decs = (case decs of None \<Rightarrow> None | Some d \<Rightarrow> get_decoration to_list (Some d) True);
          (warned, page_size) =
            (if page_size < MINIMUM_PROJECTS_PAGE_SIZE
               then ([page_size_small_msg page_size], MINIMUM_PROJECTS_PAGE_SIZE)
             else if page_size > MAXIMUM_PROJECTS_PAGE_SIZE
               then ([page_size_large_msg page_size], MAXIMUM_PROJECTS_PAGE_SIZE)
             else ([], page_size));
          token_error =
            (case page_token of
               None \<Rightarrow> None
             | Some t \<Rightarrow>
                 if \<not> isdecimal t then Some (ValueError (token_not_decimal_msg t))
                 else (case py_int t of
                         Inl f \<Rightarrow> Some (ValueError (int_error_msg t f))
                       | Inr page_token_int \<Rightarrow>
                           if page_token_int < MINIMUM_PROJECTS_SEARCH_OFFSET
                             then Some (ValueError (token_small_msg page_token_int))
                           else if page_token_int > MAXIMUM_PROJECTS_SEARCH_OFFSET
                             then Some (ValueError (token_large_msg page_token_int))
                           else None))
      in case token_error of
           Some e \<Rightarrow> (warned, [], Inl e)
         | None \<Rightarrow>
             (let body = \<lparr>filters = fs, decorations = decs, pageSize = page_size,
                          pageToken = page_token\<rparr>
              in (warned, [body], api_request body)))"

text \<open>The generator \<open>search_projects\<close>: what was yielded, the warnings, the request
  bodies dispatched, and the exception that ended it, if any.\<close>

partial_function (option) search_loop ::
  "(string set \<Rightarrow> string list) \<Rightarrow> (search_body \<Rightarrow> py_error + 'a page) \<Rightarrow> search_filters
     \<Rightarrow> decoration option \<Rightarrow> int \<Rightarrow> string option
     \<Rightarrow> 'a list \<times> string list \<times> search_body list
     \<Rightarrow> ('a list \<times> string list \<times> search_body list \<times> py_error option) option" where
  "search_loop to_list api_request fs decs page_size page_token st =
     (case st of (yielded, warned, sent) \<Rightarrow>
      (case api_search_projects to_list api_request fs decs page_size page_token of
         (w, s, Inl e) \<Rightarrow> Some (yielded, warned @ w, sent @ s, Some e)
       | (w, s, Inr response_as_json) \<Rightarrow>
           (case nextPageToken response_as_json of
              None \<Rightarrow>
                Some (yielded @ page_values response_as_json, warned @ w, sent @ s, None)
            | Some t \<Rightarrow>
                (case py_int t of
                   Inl f \<Rightarrow>
                     Some (yielded @ page_values response_as_json, warned @ w, sent @ s,
                           Some (ValueError (int_error_msg t f)))
                 | Inr n \<Rightarrow>
                     if n > MAXIMUM_PROJECTS_PAGE_SIZE
                     then Some (yielded @ page_values response_as_json, warned @ w, sent @ s,
                                None)
                     else search_loop to_list api_request fs decs page_size (Some t)
                            (yielded @ page_values response_as_json, warned @ w, sent @ s)))))"

definition search_projects ::
  "(string set \<Rightarrow> string list) \<Rightarrow> (search_body \<Rightarrow> py_error + 'a page) \<Rightarrow> search_filters
     \<Rightarrow> decoration option \<Rightarrow> int
     \<Rightarrow> ('a list \<times> string list \<times> search_body list \<times> py_error option) option" where
  "search_projects to_list api_request fs decs page_size =
     search_loop to_list api_request fs decs page_size None ([], [], [])"

text \<open>Arguments and servers for concrete runs: no filter set, a server that returns the
  same page to every request, and one that serves two pages, the first with a token.\<close>

definition no_filters :: search_filters where
  "no_filters = \<lparr>query = None, organizations = None, tags = None, roles = None,
     includeHomeProjects = None, directRoleGrantPrincipalIds = None, sort_spec = None\<rparr>"

definition constant_server :: "'r \<Rightarrow> search_body \<Rightarrow> py_error + 'r" where
  "constant_server pg body = Inr pg"

definition two_page_server :: "string \<Rightarrow> search_body \<Rightarrow> py_error + string page" where
  "two_page_server t body =
     (if pageToken body = None
      then Inr \<lparr>page_values = [''project-a''], nextPageToken = Some t\<rparr>
      else Inr \<lparr>page_values = [''project-b''], nextPageToken = None\<rparr>)"

section \<open>Theorems\<close>

lemma sublist_mid: "sublist xs (a @ xs @ b)"
  by (rule sublist_appendI)

text \<open>
  C9. \<open>assert_in_literal\<close>: a candidate that is one of the literal's options never
  raises; a candidate that is not always raises a \<open>TypeError\<close> whose message contains
  the candidate, the variable name and the whole tuple of valid options.
\<close>

theorem assert_in_literal_spec:
  "(option \<in> set (get_args literal) \<longrightarrow>
      assert_in_literal option literal variable_name = Inr ())
   \<and> (option \<notin> set (get_args literal) \<longrightarrow>
      (\<exists>msg. assert_in_literal option literal variable_name = Inl (TypeError msg)
         \<and> sublist option msg
         \<and> sublist variable_name msg
         \<and> sublist (repr_tuple (get_args literal)) msg))"
proof -
  let ?m = "assert_in_literal_msg option (get_args literal) variable_name"
  have 1: "sublist option ?m"
    unfolding assert_in_literal_msg_def by (rule sublist_mid)
  have 2: "sublist variable_name ?m"
  proof -
    have "?m = ([CHR 0x27] @ option @ [CHR 0x27] @ '' is not a valid option for '')
                 @ variable_name
                 @ ('', valid options are '' @ repr_tuple (get_args literal))"
      unfolding assert_in_literal_msg_def by simp
    then show ?thesis by (metis sublist_mid)
  qed
  have 3: "sublist (repr_tuple (get_args literal)) ?m"
  proof -
    have "?m = ([CHR 0x27] @ option @ [CHR 0x27] @ '' is not a valid option for ''
                 @ variable_name @ '', valid options are '')
                 @ repr_tuple (get_args literal) @ []"
      unfolding assert_in_literal_msg_def by simp
    then show ?thesis by (metis sublist_mid)
  qed
  show ?thesis
    using 1 2 3 by (simp add: assert_in_literal_def Let_def)
qed

theorem assert_in_literal_spec_witness:
  "''APPEND'' \<in> set (get_args FoundryTransaction)
   \<and> assert_in_literal ''APPEND'' FoundryTransaction ''transaction_type'' = Inr ()
   \<and> ''MERGE'' \<notin> set (get_args FoundryTransaction)
   \<and> (\<exists>msg. assert_in_literal ''MERGE'' FoundryTransaction ''transaction_type''
              = Inl (TypeError msg)
         \<and> sublist ''MERGE'' msg
         \<and> sublist ''transaction_type'' msg
         \<and> sublist (repr_tuple (get_args FoundryTransaction)) msg)"
proof -
  have a: "''APPEND'' \<in> set (get_args FoundryTransaction)"
    by (simp add: get_args_def FoundryTransaction_def)
  have m: "''MERGE'' \<notin> set (get_args FoundryTransaction)"
    by (simp add: get_args_def FoundryTransaction_def)
  show ?thesis
    using a m
      assert_in_literal_spec [of "''APPEND''" FoundryTransaction "''transaction_type''"]
      assert_in_literal_spec [of "''MERGE''" FoundryTransaction "''transaction_type''"]
    by blast
qed

subsection \<open>Decimal strings and the example identifiers\<close>

lemma code_point_digit_char: "d < 10 \<Longrightarrow> code_point (digit_char d) = 48 + d"
  by (simp add: code_point_def digit_char_def)

lemma is_digit_digit_char: "d < 10 \<Longrightarrow> is_digit (digit_char d)"
  by (simp add: is_digit_def code_point_digit_char)

lemma digit_value_digit_char: "d < 10 \<Longrightarrow> digit_value (digit_char d) = d"
  by (simp add: digit_value_def code_point_digit_char)

lemma dec_value_snoc: "dec_value (xs @ [c]) = 10 * dec_value xs + digit_value c"
  by (simp add: dec_value_def)

lemma dec_value_str_nat: "dec_value (str_nat n) = n"
proof (induction n rule: str_nat.induct)
  case (1 n)
  show ?case
  proof (cases "n < 10")
    case True
    then show ?thesis
      by (subst str_nat.simps) (simp add: dec_value_def digit_value_digit_char)
  next
    case False
    with 1 have "dec_value (str_nat (n div 10)) = n div 10" by simp
    with False show ?thesis
      by (subst str_nat.simps) (simp add: dec_value_snoc digit_value_digit_char)
  qed
qed

lemma str_nat_digits: "list_all is_digit (str_nat n)"
proof (induction n rule: str_nat.induct)
  case (1 n)
  then show ?case
    by (subst str_nat.simps) (simp add: is_digit_digit_char)
qed

lemma str_nat_nonempty: "str_nat n \<noteq> []"
  by (subst str_nat.simps) simp

lemma isdecimal_str_nat: "isdecimal (str_nat n)"
  by (simp add: isdecimal_def str_nat_digits str_nat_nonempty)

lemma inj_example_rid: "inj example_rid"
proof (rule injI)
  fix a b assume "example_rid a = example_rid b"
  then have "str_nat a = str_nat b" by (simp add: example_rid_def)
  then have "dec_value (str_nat a) = dec_value (str_nat b)" by simp
  then show "a = b" by (simp add: dec_value_str_nat)
qed

lemma distinct_example_rids: "distinct (example_rids n)"
  by (simp add: example_rids_def distinct_map inj_example_rid inj_on_subset [OF inj_example_rid])

lemma length_example_rids: "length (example_rids n) = n"
  by (simp add: example_rids_def)

lemma merge_batches_ok:
  assumes "\<forall>b \<in> set bs. \<exists>d. api b = Inr d \<and> dom d = set b"
  shows "\<exists>m. merge_batches api bs result calls = (calls @ bs, Inr m)
           \<and> dom m = dom result \<union> \<Union> (set (map set bs))"
  using assms
proof (induction bs arbitrary: result calls)
  case Nil
  then show ?case by simp
next
  case (Cons b bs)
  from Cons.prems obtain d where d: "api b = Inr d" "dom d = set b" by auto
  from Cons.prems have "\<forall>b \<in> set bs. \<exists>d. api b = Inr d \<and> dom d = set b" by simp
  from Cons.IH [OF this, of "result ++ d" "calls @ [b]"] d
  show ?case by auto
qed

lemma answer_all_dom: "\<exists>d. answer_all b = Inr d \<and> dom d = set b"
  by (auto simp: answer_all_def dom_map_of_conv_image_fst image_image)

lemma get_paths_batches_250:
  assumes "length rs = 250"
  shows "get_paths_batches rs = [take 100 rs, take 100 (drop 100 rs), drop 200 rs]"
proof -
  have "[0 ..< 3] = [0, 1, Suc 1]" by (simp add: upt_rec)
  then show ?thesis 
  using assms by (simp add: get_paths_batches_def GET_PATHS_BATCH_SIZE_def py_range_def py_slice_def Let_def)
qed

lemma set_three_chunks:
  "set (take 100 rs) \<union> set (take 100 (drop 100 rs)) \<union> set (drop 200 rs) = set rs"
proof -
  have "rs = take 100 rs @ take 100 (drop 100 rs) @ drop 200 rs"
    by (metis append_take_drop_id drop_drop numeral_Bit0)
  then have "set rs = set (take 100 rs @ take 100 (drop 100 rs) @ drop 200 rs)" by simp
  then show ?thesis by (simp add: Un_assoc)
qed

text \<open>
  C8. \<open>get_paths\<close> on 250 identifiers, with the path batch size of 100, makes exactly
  three \<open>api_get_paths\<close> calls, on chunks of 100, 100 and 50 identifiers, and returns the
  three answers merged into one mapping, a later answer overriding an earlier one. When
  the server answers every identifier it is asked for, that mapping has exactly the
  requested identifiers as keys: 250 entries when they are distinct.
\<close>

theorem get_paths_250:
  assumes len: "length rs = 250"
    and a1: "api (take 100 rs) = Inr d1"
    and a2: "api (take 100 (drop 100 rs)) = Inr d2"
    and a3: "api (drop 200 rs) = Inr d3"
  shows "get_paths api rs
           = ([take 100 rs, take 100 (drop 100 rs), drop 200 rs], Inr (d1 ++ d2 ++ d3))
       \<and> map length (fst (get_paths api rs)) = [100, 100, 50]
       \<and> (dom d1 = set (take 100 rs) \<and> dom d2 = set (take 100 (drop 100 rs))
            \<and> dom d3 = set (drop 200 rs)
           \<longrightarrow> dom (d1 ++ d2 ++ d3) = set rs
               \<and> (distinct rs \<longrightarrow> card (dom (d1 ++ d2 ++ d3)) = 250))"
proof -
  let ?bs = "[take 100 rs, take 100 (drop 100 rs), drop 200 rs]"
  have g: "get_paths api rs = (?bs, Inr (d1 ++ d2 ++ d3))"
    by (simp add: get_paths_def get_paths_batches_250 [OF len] a1 a2 a3)
  have l: "map length ?bs = [100, 100, 50]" using len by simp
  have d: "dom d1 = set (take 100 rs) \<and> dom d2 = set (take 100 (drop 100 rs))
            \<and> dom d3 = set (drop 200 rs)
           \<longrightarrow> dom (d1 ++ d2 ++ d3) = set rs
               \<and> (distinct rs \<longrightarrow> card (dom (d1 ++ d2 ++ d3)) = 250)"
  proof
    assume h: "dom d1 = set (take 100 rs) \<and> dom d2 = set (take 100 (drop 100 rs))
            \<and> dom d3 = set (drop 200 rs)"
    have "dom (d1 ++ d2 ++ d3) = dom d1 \<union> dom d2 \<union> dom d3" by auto
    with h have e: "dom (d1 ++ d2 ++ d3) = set rs"
      using set_three_chunks [of rs] by simp
    then have "distinct rs \<longrightarrow> card (dom (d1 ++ d2 ++ d3)) = 250"
      using len by (simp add: distinct_card)
    with e show "dom (d1 ++ d2 ++ d3) = set rs
               \<and> (distinct rs \<longrightarrow> card (dom (d1 ++ d2 ++ d3)) = 250)" ..
  qed
  have l': "map length (fst (get_paths api rs)) = [100, 100, 50]"
    unfolding g fst_conv by (rule l)
  from g l' d show ?thesis by (intro conjI)
qed

theorem get_paths_250_witness:
  "length (example_rids 250) = 250
   \<and> distinct (example_rids 250)
   \<and> get_paths answer_all (example_rids 250)
       = ([take 100 (example_rids 250), take 100 (drop 100 (example_rids 250)),
           drop 200 (example_rids 250)],
          Inr (map_of (map (\<lambda>r. (r, ''/ns/'' @ r)) (take 100 (example_rids 250)))
               ++ map_of (map (\<lambda>r. (r, ''/ns/'' @ r)) (take 100 (drop 100 (example_rids 250))))
               ++ map_of (map (\<lambda>r. (r, ''/ns/'' @ r)) (drop 200 (example_rids 250)))))
   \<and> map length (fst (get_paths answer_all (example_rids 250))) = [100, 100, 50]
   \<and> dom (map_of (map (\<lambda>r. (r, ''/ns/'' @ r)) (take 100 (example_rids 250)))
           ++ map_of (map (\<lambda>r. (r, ''/ns/'' @ r)) (take 100 (drop 100 (example_rids 250))))
           ++ map_of (map (\<lambda>r. (r, ''/ns/'' @ r)) (drop 200 (example_rids 250))))
       = set (example_rids 250)
   \<and> card (dom (map_of (map (\<lambda>r. (r, ''/ns/'' @ r)) (take 100 (example_rids 250)))
           ++ map_of (map (\<lambda>r. (r, ''/ns/'' @ r)) (take 100 (drop 100 (example_rids 250))))
           ++ map_of (map (\<lambda>r. (r, ''/ns/'' @ r)) (drop 200 (example_rids 250)))))
       = 250
   \<and> (map_of (map (\<lambda>r. (r, ''/ns/'' @ r)) (take 100 (example_rids 250)))
           ++ map_of (map (\<lambda>r. (r, ''/ns/'' @ r)) (take 100 (drop 100 (example_rids 250))))
           ++ map_of (map (\<lambda>r. (r, ''/ns/'' @ r)) (drop 200 (example_rids 250))))
        (example_rid 249)
       = Some (''/ns/'' @ example_rid 249)"
proof -
  let ?rs = "example_rids 250"
  let ?d = "\<lambda>b. map_of (map (\<lambda>r. (r, ''/ns/'' @ r)) b)"
  have l: "length ?rs = 250" by (rule length_example_rids)
  have dist: "distinct ?rs" by (rule distinct_example_rids)
  have a: "\<And>b. answer_all b = Inr (?d b)" by (simp add: answer_all_def)
  have dm: "\<And>b. dom (?d b) = set b"
    by (simp add: dom_map_of_conv_image_fst image_image)
  note t = get_paths_250 [of ?rs answer_all "?d (take 100 ?rs)" "?d (take 100 (drop 100 ?rs))"
      "?d (drop 200 ?rs)", OF l a a a]
  from t have 1: "get_paths answer_all ?rs
       = ([take 100 ?rs, take 100 (drop 100 ?rs), drop 200 ?rs],
          Inr (?d (take 100 ?rs) ++ ?d (take 100 (drop 100 ?rs)) ++ ?d (drop 200 ?rs)))"
    by (rule conjunct1)
  from t have 2: "map length (fst (get_paths answer_all ?rs)) = [100, 100, 50]"
    by (elim conjE)
  from t have "dom (?d (take 100 ?rs)) = set (take 100 ?rs)
        \<and> dom (?d (take 100 (drop 100 ?rs))) = set (take 100 (drop 100 ?rs))
        \<and> dom (?d (drop 200 ?rs)) = set (drop 200 ?rs)
       \<longrightarrow> dom (?d (take 100 ?rs) ++ ?d (take 100 (drop 100 ?rs)) ++ ?d (drop 200 ?rs)) = set ?rs
           \<and> (distinct ?rs \<longrightarrow>
                card (dom (?d (take 100 ?rs) ++ ?d (take 100 (drop 100 ?rs))
                           ++ ?d (drop 200 ?rs))) = 250)"
    by (elim conjE)
  moreover have "dom (?d (take 100 ?rs)) = set (take 100 ?rs)
        \<and> dom (?d (take 100 (drop 100 ?rs))) = set (take 100 (drop 100 ?rs))
        \<and> dom (?d (drop 200 ?rs)) = set (drop 200 ?rs)"
    by (intro conjI dm)
  ultimately have 34:
    "dom (?d (take 100 ?rs) ++ ?d (take 100 (drop 100 ?rs)) ++ ?d (drop 200 ?rs)) = set ?rs
     \<and> (distinct ?rs \<longrightarrow>
                card (dom (?d (take 100 ?rs) ++ ?d (take 100 (drop 100 ?rs))
                           ++ ?d (drop 200 ?rs))) = 250)"
    by (rule mp)
  then have 3:
    "dom (?d (take 100 ?rs) ++ ?d (take 100 (drop 100 ?rs)) ++ ?d (drop 200 ?rs)) = set ?rs"
    by (rule conjunct1)
  from 34 dist have 4: "card (dom (?d (take 100 ?rs) ++ ?d (take 100 (drop 100 ?rs))
                           ++ ?d (drop 200 ?rs))) = 250"
    by (elim conjE impE)
  have "drop 200 ?rs = map example_rid [200 ..< 250]"
    by (simp only: example_rids_def drop_map drop_upt) simp
  moreover have "(249::nat) \<in> set [200 ..< 250]" by simp
  ultimately have m: "example_rid 249 \<in> set (drop 200 ?rs)"
    by (metis imageI set_map)
  then have v: "?d (drop 200 ?rs) (example_rid 249) = Some (''/ns/'' @ example_rid 249)"
    by (simp only: map_of_map_restrict restrict_in o_apply)
  from m have "example_rid 249 \<in> dom (?d (drop 200 ?rs))"
    by (simp only: dm)
  then have "(?d (take 100 ?rs) ++ ?d (take 100 (drop 100 ?rs)) ++ ?d (drop 200 ?rs))
               (example_rid 249) = ?d (drop 200 ?rs) (example_rid 249)"
    by (rule map_add_dom_app_simps(1))
  from this v have 5: "(?d (take 100 ?rs) ++ ?d (take 100 (drop 100 ?rs)) ++ ?d (drop 200 ?rs))
                    (example_rid 249) = Some (''/ns/'' @ example_rid 249)"
    by (rule trans)
  from l dist 1 2 3 4 5 show ?thesis by (intro conjI)
qed

subsection \<open>The batches of \<open>get_projects_by_rids\<close>\<close>

lemma get_projects_batches_long:
  assumes "100 \<le> length rs"
  shows "get_projects_batches rs = map (\<lambda>i. take 100 (drop i rs)) [0 ..< length rs]"
  using assms
  by (simp add: get_projects_batches_def GET_PATHS_BATCH_SIZE_def GET_PROJECTS_BATCH_SIZE_def
      py_range_def py_slice_def Let_def)

lemma get_projects_batches_short:
  assumes "length rs < 100"
  shows "get_projects_batches rs = [rs]"
  using assms
  by (simp add: get_projects_batches_def GET_PATHS_BATCH_SIZE_def Let_def)

lemma calls_answer_all: "fst (merge_batches answer_all bs result calls) = calls @ bs"
proof -
  have "\<forall>b \<in> set bs. \<exists>d. answer_all b = Inr d \<and> dom d = set b"
    using answer_all_dom by blast
  from merge_batches_ok [OF this, of result calls] show ?thesis by auto
qed

lemma projects_calls_answer_all:
  "fst (get_projects_by_rids answer_all rs) = get_projects_batches rs"
  by (simp add: get_projects_by_rids_def calls_answer_all)

lemma last_in_every_window:
  assumes "length rs = 100"
  shows "filter (\<lambda>b. last rs \<in> set b) (map (\<lambda>i. take 100 (drop i rs)) [0 ..< length rs])
           = map (\<lambda>i. take 100 (drop i rs)) [0 ..< length rs]"
proof (rule filter_True, clarsimp)
  fix i assume i: "i < length rs"
  with assms have "take 100 (drop i rs) = drop i rs" by simp
  moreover from i have "drop i rs \<noteq> []" by simp
  then have "last (drop i rs) \<in> set (drop i rs)" by (rule last_in_set)
  moreover from i have "last (drop i rs) = last rs" by simp
  ultimately show "last rs \<in> set (take 100 (drop i rs))" by simp
qed

lemma last_example_rids: "0 < n \<Longrightarrow> last (example_rids n) = example_rid (n - 1)"
  by (simp add: example_rids_def last_map last_upt)

text \<open>
  C1. \<open>get_projects_by_rids\<close> is meant to split its input into chunks of the project
  batch size, each identifier in exactly one chunk. The code compares the length with
  \<open>GET_PATHS_BATCH_SIZE\<close>, slices windows of \<open>GET_PATHS_BATCH_SIZE\<close> identifiers and
  only steps by \<open>GET_PROJECTS_BATCH_SIZE\<close>. On two identifiers it therefore makes one
  call with both of them; on 100 identifiers it makes 100 calls, the first with all 100
  identifiers, and the last identifier is sent in every one of the 100 calls.
\<close>

theorem get_projects_by_rids_windows:
  "fst (get_projects_by_rids answer_all (example_rids 2)) = [example_rids 2]
   \<and> length (fst (get_projects_by_rids answer_all (example_rids 100))) = 100
   \<and> hd (fst (get_projects_by_rids answer_all (example_rids 100))) = example_rids 100
   \<and> length (filter (\<lambda>b. example_rid 99 \<in> set b)
               (fst (get_projects_by_rids answer_all (example_rids 100)))) = 100"
proof -
  let ?rs = "example_rids 100"
  have len: "length ?rs = 100" by (rule length_example_rids)
  have b: "get_projects_batches ?rs = map (\<lambda>i. take 100 (drop i ?rs)) [0 ..< length ?rs]"
    by (rule get_projects_batches_long) (simp add: len)
  have 1: "fst (get_projects_by_rids answer_all (example_rids 2)) = [example_rids 2]"
    by (simp add: projects_calls_answer_all get_projects_batches_short length_example_rids)
  have 2: "length (get_projects_batches ?rs) = 100"
    by (simp add: b len)
  have 3: "hd (get_projects_batches ?rs) = ?rs"
    by (simp add: b len hd_map upt_rec [of 0 100])
  have l: "last ?rs = example_rid 99"
    using last_example_rids [of 100] by simp
  have 4: "length (filter (\<lambda>b. example_rid 99 \<in> set b) (get_projects_batches ?rs)) = 100"
    using last_in_every_window [OF len] by (simp add: b l len)
  show ?thesis
    using 1 2 3 4 by (simp add: projects_calls_answer_all)
qed


subsection \<open>Trash operations and existence checks\<close>

text \<open>
  C2. \<open>api_add_to_trash\<close> and \<open>api_restore\<close> return the response on status 204 and
  raise on any other status; the error of \<open>api_add_to_trash\<close> carries the requested
  identifiers. The error of \<open>api_restore\<close> does not: on a response with status 500 for
  one identifier its configuration holds only the info text, where the same call of
  \<open>api_add_to_trash\<close> holds the identifier set.
\<close>

theorem api_restore_error_without_rids:
  "api_restore (\<lambda>r. Inr \<lparr>status_code = 500, json_body = ()\<rparr>) {example_rid 1} None
     = Inl (FoundryAPIError 500
         \<lparr>info = Some ''Issue while restoring resource(s) from trash.'', rids = None\<rparr>)
   \<and> api_add_to_trash (\<lambda>r. Inr \<lparr>status_code = 500, json_body = ()\<rparr>) {example_rid 1} None
     = Inl (FoundryAPIError 500
         \<lparr>info = Some ''Issue while moving resource(s) to trash.'',
          rids = Some {example_rid 1}\<rparr>)
   \<and> api_restore (\<lambda>r. Inr \<lparr>status_code = 204, json_body = ()\<rparr>) {example_rid 1} None
     = Inr \<lparr>status_code = 204, json_body = ()\<rparr>"
  by (simp add: api_restore_def api_add_to_trash_def raise_foundry_api_error_def no_content_def)

text \<open>
  C10. \<open>resource_exists\<close>: when the batch answer is a mapping, the result is \<open>False\<close>
  (no exception) if the identifier is not a key of it, and the mapped boolean if it is.
\<close>

theorem resource_exists_spec:
  assumes "api_resources_exist {rid} = Inr result"
  shows "(rid \<notin> dom result \<longrightarrow> resource_exists api_resources_exist rid = Inr False)
       \<and> (\<forall>b. result rid = Some b \<longrightarrow> resource_exists api_resources_exist rid = Inr b)"
  using assms
  by (auto simp: resource_exists_def resources_exist_def dict_get_def split: option.splits)

theorem resource_exists_spec_witness:
  "(\<lambda>rs. Inr (Map.empty :: Rid \<rightharpoonup> bool)) {example_rid 1} = Inr Map.empty
   \<and> example_rid 1 \<notin> dom (Map.empty :: Rid \<rightharpoonup> bool)
   \<and> resource_exists (\<lambda>rs. Inr Map.empty) (example_rid 1) = Inr False
   \<and> (\<lambda>rs. Inr [example_rid 1 \<mapsto> True]) {example_rid 1} = Inr [example_rid 1 \<mapsto> True]
   \<and> [example_rid 1 \<mapsto> True] (example_rid 1) = Some True
   \<and> resource_exists (\<lambda>rs. Inr [example_rid 1 \<mapsto> True]) (example_rid 1) = Inr True"
  using resource_exists_spec [of "\<lambda>rs. Inr Map.empty" "example_rid 1" Map.empty]
    resource_exists_spec [of "\<lambda>rs. Inr [example_rid 1 \<mapsto> True]" "example_rid 1"
      "[example_rid 1 \<mapsto> True]"]
  by auto

subsection \<open>\<open>int\<close> on decimal strings\<close>

lemma digit_not_space: "is_digit c \<Longrightarrow> \<not> int_space c"
  by (auto simp: is_digit_def int_space_def Let_def)

lemma digit_not_sign: "is_digit c \<Longrightarrow> c \<noteq> CHR ''-'' \<and> c \<noteq> CHR ''+'' \<and> c \<noteq> CHR ''_''"
  by (auto simp: is_digit_def code_point_def)

lemma digits_no_double_underscore: "list_all is_digit s \<Longrightarrow> no_double_underscore s"
  by (induction s rule: no_double_underscore.induct) (auto simp: digit_not_sign)

lemma digits_filter: "list_all is_digit s \<Longrightarrow> filter is_digit s = s"
  by (induction s) auto

lemma digits_run:
  assumes "list_all is_digit s"
  shows "takeWhile (\<lambda>c. is_digit c \<or> c = CHR ''_'') s = s"
    and "dropWhile (\<lambda>c. is_digit c \<or> c = CHR ''_'') s = []"
  using assms by (induction s) auto

lemma py_int_decimal:
  assumes "isdecimal s"
  shows "py_int s =
           (if length s > int_max_str_digits then Inl (TooManyDigits (length s))
            else Inr (int (dec_value s)))"
proof -
  from assms have d: "list_all is_digit s" and n: "s \<noteq> []"
    by (simp_all add: isdecimal_def)
  from d n have h: "is_digit (hd s)" and l: "is_digit (last s)"
    by (auto simp: list_all_iff)
  have 1: "dropWhile int_space s = s"
    using n h by (cases s) (simp_all add: digit_not_space)
  have sg: "(case s of [] \<Rightarrow> (False, [])
             | c # r \<Rightarrow> if c = CHR ''+'' then (False, r)
                        else if c = CHR ''-'' then (True, r) else (False, c # r))
            = (False, s)"
    using n h by (cases s) (auto dest: digit_not_sign)
  have 2: "takeWhile (\<lambda>c. is_digit c \<or> c = CHR ''_'') s = s"
    by (rule digits_run(1) [OF d])
  have 3: "dropWhile (\<lambda>c. is_digit c \<or> c = CHR ''_'') s = []"
    by (rule digits_run(2) [OF d])
  have 4: "filter is_digit s = s"
    by (rule digits_filter [OF d])
  have 5: "no_double_underscore s"
    by (rule digits_no_double_underscore [OF d])
  have 6: "hd s \<noteq> CHR ''_''" "last s \<noteq> CHR ''_''"
    using digit_not_sign [OF h] digit_not_sign [OF l] by simp_all
  show ?thesis
    by (simp add: py_int_def Let_def 1 sg 2 3 4 5 6 n)
qed



subsection \<open>Page size and page token of \<open>api_search_projects\<close>\<close>

lemma api_search_projects_cases:
  "api_search_projects to_list api_request fs decs page_size page_token =
     (let ws = (if page_size < 1 then [page_size_small_msg page_size]
                else if page_size > 500 then [page_size_large_msg page_size] else []);
          body = \<lparr>filters = fs,
                  decorations = (case decs of None \<Rightarrow> None
                                 | Some d \<Rightarrow> get_decoration to_list (Some d) True),
                  pageSize = (if page_size < 1 then 1 else if page_size > 500 then 500
                              else page_size),
                  pageToken = page_token\<rparr>
      in case page_token of
           None \<Rightarrow> (ws, [body], api_request body)
         | Some t \<Rightarrow>
             if \<not> isdecimal t then (ws, [], Inl (ValueError (token_not_decimal_msg t)))
             else if length t > int_max_str_digits
               then (ws, [], Inl (ValueError (int_error_msg t (TooManyDigits (length t)))))
             else if dec_value t > 500
               then (ws, [], Inl (ValueError (token_large_msg (int (dec_value t)))))
             else (ws, [body], api_request body))"
  by (auto simp: api_search_projects_def Let_def py_int_decimal
        MINIMUM_PROJECTS_PAGE_SIZE_def MAXIMUM_PROJECTS_PAGE_SIZE_def
        MINIMUM_PROJECTS_SEARCH_OFFSET_def MAXIMUM_PROJECTS_SEARCH_OFFSET_def
      split: option.splits)

lemma decimal_examples:
  "isdecimal ''0''" "isdecimal ''500''" "isdecimal ''0500''" "isdecimal ''501''" "isdecimal ''100''"
  "\<not> isdecimal ''abc''" "\<not> isdecimal ''-1''" "\<not> isdecimal []"
  "dec_value ''0'' = 0" "dec_value ''500'' = 500" "dec_value ''0500'' = 500"
  "dec_value ''501'' = 501" "dec_value ''100'' = 100"
  by (simp_all add: isdecimal_def is_digit_def code_point_def dec_value_def digit_value_def)






subsection \<open>\<open>get_decoration\<close>\<close>

lemma finite_ALL_RESOURCE_DECORATIONS: "finite ALL_RESOURCE_DECORATIONS"
  by (simp add: ALL_RESOURCE_DECORATIONS_def)

lemma lists_sets_sorted: "lists_sets sorted_list_of_set"
  by (simp add: lists_sets_def)

lemma literal_is_vocabulary: "set (get_args ResourceDecoration) = ALL_RESOURCE_DECORATIONS"
  by (simp add: get_args_def ResourceDecoration_def ALL_RESOURCE_DECORATIONS_def)

lemma get_decoration_None: "get_decoration to_list None conv = None"
  by (simp add: get_decoration_def)

lemma get_decoration_All:
  "get_decoration to_list (Some All) conv
     = Some (if conv then AsList (to_list ALL_RESOURCE_DECORATIONS)
             else AsSet ALL_RESOURCE_DECORATIONS)"
  by (simp add: get_decoration_def)

lemma get_decoration_Decorations:
  "get_decoration to_list (Some (Decorations s)) conv
     = Some (if conv then AsList (to_list s) else AsSet s)"
  by (simp add: get_decoration_def)

lemma lists_setsD:
  "lists_sets to_list \<Longrightarrow> finite s \<Longrightarrow> set (to_list s) = s \<and> distinct (to_list s)"
  unfolding lists_sets_def by blast

lemma members_All:
  assumes ls: "lists_sets to_list"
    and r: "get_decoration to_list (Some All) conv = Some r"
  shows "members r = ALL_RESOURCE_DECORATIONS"
proof -
  have e: "set (to_list ALL_RESOURCE_DECORATIONS) = ALL_RESOURCE_DECORATIONS"
    using lists_setsD [OF ls finite_ALL_RESOURCE_DECORATIONS] by (rule conjunct1)
  from r have "r = (if conv then AsList (to_list ALL_RESOURCE_DECORATIONS)
                    else AsSet ALL_RESOURCE_DECORATIONS)"
    by (simp add: get_decoration_All)
  then show ?thesis using e by (cases conv) simp_all
qed

lemma members_Decorations:
  assumes ls: "lists_sets to_list"
    and f: "finite s"
    and r: "get_decoration to_list (Some (Decorations s)) conv = Some r"
  shows "members r = s"
proof -
  have e: "set (to_list s) = s"
    using lists_setsD [OF ls f] by (rule conjunct1)
  from r have "r = (if conv then AsList (to_list s) else AsSet s)"
    by (simp add: get_decoration_Decorations)
  then show ?thesis using e by (cases conv) simp_all
qed

lemma get_decoration_members:
  assumes ls: "lists_sets to_list"
    and ok: "\<forall>s. decoration = Some (Decorations s) \<longrightarrow> finite s \<and> s \<subseteq> ALL_RESOURCE_DECORATIONS"
    and r: "get_decoration to_list decoration conv = Some r"
  shows "members r \<subseteq> ALL_RESOURCE_DECORATIONS"
proof (cases decoration)
  case None
  with r show ?thesis by (simp add: get_decoration_None)
next
  case (Some d)
  show ?thesis
  proof (cases d)
    case All
    from r have "get_decoration to_list (Some All) conv = Some r"
      unfolding Some All .
    from members_All [OF ls this] show ?thesis by (rule equalityD1)
  next
    case (Decorations s')
    from ok have s': "finite s' \<and> s' \<subseteq> ALL_RESOURCE_DECORATIONS"
      unfolding Some Decorations by blast
    from r have "get_decoration to_list (Some (Decorations s')) conv = Some r"
      unfolding Some Decorations .
    from members_Decorations [OF ls conjunct1 [OF s'] this] s' show ?thesis by blast
  qed
qed


text \<open>
  \<open>get_decoration\<close> does not check the members of an explicit set: a set with a tag
  outside the vocabulary is returned as it is.
\<close>

theorem get_decoration_unknown_tag:
  "get_decoration sorted_list_of_set (Some (Decorations {''bogus''})) False
     = Some (AsSet {''bogus''})
   \<and> \<not> members (AsSet {''bogus''}) \<subseteq> ALL_RESOURCE_DECORATIONS"
proof -
  have a: "get_decoration sorted_list_of_set (Some (Decorations {''bogus''})) False
             = Some (AsSet {''bogus''})"
    by (simp add: get_decoration_Decorations)
  have b: "\<not> members (AsSet {''bogus''}) \<subseteq> ALL_RESOURCE_DECORATIONS"
    by (simp add: ALL_RESOURCE_DECORATIONS_def)
  from a b show ?thesis by (rule conjI)
qed

text \<open>
  C5. \<open>get_decoration\<close> maps \<open>None\<close> to \<open>None\<close> for either flag; maps \<open>"all"\<close> with
  \<open>conv=True\<close> to a list of the whole vocabulary without duplicates; returns an explicit
  set unchanged with \<open>conv=False\<close>; and its result lies inside the vocabulary whenever
  the argument is \<open>None\<close>, \<open>"all"\<close> or a set that itself lies inside the vocabulary.
\<close>

theorem get_decoration_spec:
  assumes "lists_sets to_list"
  shows "get_decoration to_list None conv = None
       \<and> (\<exists>l. get_decoration to_list (Some All) True = Some (AsList l)
              \<and> set l = ALL_RESOURCE_DECORATIONS \<and> distinct l)
       \<and> get_decoration to_list (Some (Decorations s)) False = Some (AsSet s)
       \<and> ((\<forall>s. decoration = Some (Decorations s) \<longrightarrow> finite s \<and> s \<subseteq> ALL_RESOURCE_DECORATIONS)
            \<longrightarrow> (\<forall>r. get_decoration to_list decoration conv = Some r
                       \<longrightarrow> members r \<subseteq> ALL_RESOURCE_DECORATIONS))"
proof -
  have 1: "get_decoration to_list None conv = None"
    by (rule get_decoration_None)
  have 2: "\<exists>l. get_decoration to_list (Some All) True = Some (AsList l)
              \<and> set l = ALL_RESOURCE_DECORATIONS \<and> distinct l"
    using lists_setsD [OF assms finite_ALL_RESOURCE_DECORATIONS]
    by (simp add: get_decoration_All)
  have 3: "get_decoration to_list (Some (Decorations s)) False = Some (AsSet s)"
    by (simp add: get_decoration_Decorations)
  have 4: "(\<forall>s. decoration = Some (Decorations s) \<longrightarrow> finite s \<and> s \<subseteq> ALL_RESOURCE_DECORATIONS)
            \<longrightarrow> (\<forall>r. get_decoration to_list decoration conv = Some r
                       \<longrightarrow> members r \<subseteq> ALL_RESOURCE_DECORATIONS)"
    using get_decoration_members [OF assms] by blast
  from 1 2 3 4 show ?thesis by (intro conjI)
qed

theorem get_decoration_spec_witness:
  "get_decoration sorted_list_of_set None True = None
   \<and> (\<exists>l. get_decoration sorted_list_of_set (Some All) True = Some (AsList l)
          \<and> set l = ALL_RESOURCE_DECORATIONS \<and> distinct l)
   \<and> get_decoration sorted_list_of_set (Some (Decorations {''path'', ''tags''})) False
        = Some (AsSet {''path'', ''tags''})
   \<and> finite {''path'', ''tags''} \<and> {''path'', ''tags''} \<subseteq> ALL_RESOURCE_DECORATIONS
   \<and> (\<exists>r. get_decoration sorted_list_of_set (Some (Decorations {''path'', ''tags''})) True = Some r
          \<and> members r \<subseteq> ALL_RESOURCE_DECORATIONS)"
proof -
  have sub: "{''path'', ''tags''} \<subseteq> ALL_RESOURCE_DECORATIONS"
    by (simp add: ALL_RESOURCE_DECORATIONS_def)
  have fin: "finite {''path'', ''tags''}" by simp
  note t = get_decoration_spec [OF lists_sets_sorted, of True "{''path'', ''tags''}"
        "Some (Decorations {''path'', ''tags''})"]
  from t have 1: "get_decoration sorted_list_of_set None True = None" by (rule conjunct1)
  from t have 2: "\<exists>l. get_decoration sorted_list_of_set (Some All) True = Some (AsList l)
          \<and> set l = ALL_RESOURCE_DECORATIONS \<and> distinct l"
    by (elim conjE)
  from t have 3: "get_decoration sorted_list_of_set (Some (Decorations {''path'', ''tags''})) False
        = Some (AsSet {''path'', ''tags''})"
    by (elim conjE)
  from t have "(\<forall>s. Some (Decorations {''path'', ''tags''}) = Some (Decorations s)
                   \<longrightarrow> finite s \<and> s \<subseteq> ALL_RESOURCE_DECORATIONS)
            \<longrightarrow> (\<forall>r. get_decoration sorted_list_of_set (Some (Decorations {''path'', ''tags''})) True = Some r
                       \<longrightarrow> members r \<subseteq> ALL_RESOURCE_DECORATIONS)"
    by (elim conjE)
  moreover have "\<forall>s. Some (Decorations {''path'', ''tags''}) = Some (Decorations s)
                   \<longrightarrow> finite s \<and> s \<subseteq> ALL_RESOURCE_DECORATIONS"
    using sub fin by blast
  ultimately have 4: "\<forall>r. get_decoration sorted_list_of_set (Some (Decorations {''path'', ''tags''})) True = Some r
                       \<longrightarrow> members r \<subseteq> ALL_RESOURCE_DECORATIONS"
    by (rule mp)
  have "get_decoration sorted_list_of_set (Some (Decorations {''path'', ''tags''})) True
          = Some (AsList (sorted_list_of_set {''path'', ''tags''}))"
    by (simp only: get_decoration_Decorations if_True)
  with 4 have 5: "\<exists>r. get_decoration sorted_list_of_set (Some (Decorations {''path'', ''tags''})) True = Some r
          \<and> members r \<subseteq> ALL_RESOURCE_DECORATIONS"
    by blast
  from 1 2 3 fin sub 5 show ?thesis by (intro conjI)
qed

subsection \<open>The cursor loop of \<open>get_child_objects_of_folder\<close>\<close>

lemma children_loop_last_page:
  assumes "api page_token = Inr resp" and "nextPageToken resp = None"
  shows "children_loop api page_token yielded requested
           = Some (yielded @ page_values resp, requested @ [page_token], None)"
  using assms by (subst children_loop.simps) simp

lemma children_loop_next_page:
  assumes "api page_token = Inr resp" and "nextPageToken resp = Some t"
  shows "children_loop api page_token yielded requested
           = children_loop api (Some t) (yielded @ page_values resp) (requested @ [page_token])"
  using assms by (subst children_loop.simps) simp

lemma children_loop_paged:
  assumes p: "0 < p"
    and k: "(case tok of None \<Rightarrow> 0 | Some t \<Rightarrow> dec_value t) = k"
  shows "\<exists>r. children_loop (paged_server p xs) tok ys reqs
               = Some (ys @ drop k xs, reqs @ tok # r, None)"
  using k
proof (induction "length xs - k" arbitrary: k tok ys reqs rule: less_induct)
  case less
  let ?resp = "\<lparr>page_values = take p (drop k xs),
                 nextPageToken = (if k + p < length xs then Some (str_nat (k + p)) else None)\<rparr>"
  have srv: "paged_server p xs tok = Inr ?resp"
    using less.prems by (simp add: paged_server_def Let_def)
  show ?case
  proof (cases "k + p < length xs")
    case True
    then have n: "nextPageToken ?resp = Some (str_nat (k + p))" by simp
    have m: "length xs - (k + p) < length xs - k" using True p by simp
    have o: "(case Some (str_nat (k + p)) of None \<Rightarrow> 0 | Some t \<Rightarrow> dec_value t) = k + p"
      by (simp add: dec_value_str_nat)
    from less.hyps [OF m o, of "ys @ take p (drop k xs)" "reqs @ [tok]"]
    obtain r where r: "children_loop (paged_server p xs) (Some (str_nat (k + p)))
                         (ys @ take p (drop k xs)) (reqs @ [tok])
        = Some ((ys @ take p (drop k xs)) @ drop (k + p) xs,
                (reqs @ [tok]) @ Some (str_nat (k + p)) # r, None)"
      by blast
    have d: "take p (drop k xs) @ drop (k + p) xs = drop k xs"
      by (metis add.commute append_take_drop_id drop_drop)
    have "children_loop (paged_server p xs) tok ys reqs
            = Some (ys @ drop k xs, reqs @ tok # Some (str_nat (k + p)) # r, None)"
      using children_loop_next_page [of "paged_server p xs" tok ?resp "str_nat (k + p)" ys reqs] srv n r d
      by simp
    then show ?thesis by blast
  next
    case False
    then have n: "nextPageToken ?resp = None" by simp
    from False have d: "take p (drop k xs) = drop k xs" by simp
    have "children_loop (paged_server p xs) tok ys reqs
            = Some (ys @ drop k xs, reqs @ tok # [], None)"
      using children_loop_last_page [of "paged_server p xs" tok ?resp ys reqs] srv n d
      by simp
    then show ?thesis by blast
  qed
qed

lemma decimal_two: "dec_value ''2'' = 2"
  by (simp add: dec_value_def digit_value_def code_point_def)

text \<open>
  C6. The loop of \<open>get_child_objects_of_folder\<close> starts without a page token, yields
  the values of every page, goes on with the token of the response and stops when that
  token is null. Over a fixed backing collection served in pages of any fixed positive
  size it ends and has yielded exactly the collection, in order, each element once.
\<close>

theorem get_child_objects_of_folder_paged:
  "(api page_token = Inr resp \<and> nextPageToken resp = None \<longrightarrow>
      children_loop api page_token yielded requested
        = Some (yielded @ page_values resp, requested @ [page_token], None))
   \<and> (api page_token = Inr resp \<and> nextPageToken resp = Some t \<longrightarrow>
      children_loop api page_token yielded requested
        = children_loop api (Some t) (yielded @ page_values resp) (requested @ [page_token]))
   \<and> (0 < page_size \<longrightarrow>
      (\<exists>r. get_child_objects_of_folder (paged_server page_size backing)
              = Some (backing, None # r, None)))"
proof -
  have "0 < page_size \<longrightarrow>
      (\<exists>r. get_child_objects_of_folder (paged_server page_size backing)
              = Some (backing, None # r, None))"
  proof
    assume p: "0 < page_size"
    have "(case None :: string option of None \<Rightarrow> 0 | Some t \<Rightarrow> dec_value t) = (0::nat)" by simp
    from children_loop_paged [OF p this, of backing "[]" "[]"]
    show "\<exists>r. get_child_objects_of_folder (paged_server page_size backing)
              = Some (backing, None # r, None)"
      by (simp add: get_child_objects_of_folder_def)
  qed
  then show ?thesis
    using children_loop_last_page [of api page_token resp yielded requested]
      children_loop_next_page [of api page_token resp t yielded requested]
    by blast
qed

theorem get_child_objects_of_folder_paged_witness:
  "(0::nat) < 2
   \<and> (\<exists>r. get_child_objects_of_folder (paged_server 2 [''a'', ''b'', ''c'', ''d'', ''e''])
              = Some ([''a'', ''b'', ''c'', ''d'', ''e''], None # r, None))
   \<and> paged_server 2 [''a'', ''b'', ''c''] None
        = Inr \<lparr>page_values = [''a'', ''b''], nextPageToken = Some ''2''\<rparr>
   \<and> children_loop (paged_server 2 [''a'', ''b'', ''c'']) None [] []
        = children_loop (paged_server 2 [''a'', ''b'', ''c'']) (Some ''2'') [''a'', ''b''] [None]
   \<and> paged_server 2 [''a'', ''b'', ''c''] (Some ''2'')
        = Inr \<lparr>page_values = [''c''], nextPageToken = None\<rparr>
   \<and> children_loop (paged_server 2 [''a'', ''b'', ''c'']) (Some ''2'') [''a'', ''b''] [None]
        = Some ([''a'', ''b'', ''c''], [None, Some ''2''], None)"
proof -
  have s2: "str_nat 2 = ''2''"
    by code_simp
  then have s2': "str_nat (Suc (Suc 0)) = ''2''"
    by (simp only: numeral_2_eq_2)
  have a: "paged_server 2 [''a'', ''b'', ''c''] None
        = Inr \<lparr>page_values = [''a'', ''b''], nextPageToken = Some ''2''\<rparr>"
    by (simp add: paged_server_def s2')
  have b: "paged_server 2 [''a'', ''b'', ''c''] (Some ''2'')
        = Inr \<lparr>page_values = [''c''], nextPageToken = None\<rparr>"
    by (simp add: paged_server_def decimal_two)
  show ?thesis
    using a b
      get_child_objects_of_folder_paged [of "paged_server 2 [''a'', ''b'', ''c'']" None
        "\<lparr>page_values = [''a'', ''b''], nextPageToken = Some ''2''\<rparr>" "[]" "[]" "''2''" 2
        "[''a'', ''b'', ''c'', ''d'', ''e'']"]
      get_child_objects_of_folder_paged [of "paged_server 2 [''a'', ''b'', ''c'']" "Some ''2''"
        "\<lparr>page_values = [''c''], nextPageToken = None\<rparr>" "[''a'', ''b'']" "[None]" "''2''" 2
        "[''a'', ''b'', ''c'', ''d'', ''e'']"]
    by simp
qed

subsection \<open>The cursor loop of \<open>search_projects\<close>\<close>

lemma search_loop_stop:
  assumes "api_search_projects to_list api fs decs ps tok = (w, s, Inr resp)"
    and "nextPageToken resp = None
         \<or> (\<exists>t n. nextPageToken resp = Some t \<and> py_int t = Inr n \<and> n > 500)"
  shows "search_loop to_list api fs decs ps tok (ys, ws, sent)
           = Some (ys @ page_values resp, ws @ w, sent @ s, None)"
  using assms
  by (subst search_loop.simps) (auto simp: MAXIMUM_PROJECTS_PAGE_SIZE_def)

lemma search_loop_int_error:
  assumes "api_search_projects to_list api fs decs ps tok = (w, s, Inr resp)"
    and "nextPageToken resp = Some t" and "py_int t = Inl f"
  shows "search_loop to_list api fs decs ps tok (ys, ws, sent)
           = Some (ys @ page_values resp, ws @ w, sent @ s,
                   Some (ValueError (int_error_msg t f)))"
  using assms by (subst search_loop.simps) simp

lemma search_loop_continue:
  assumes "api_search_projects to_list api fs decs ps tok = (w, s, Inr resp)"
    and "nextPageToken resp = Some t" and "py_int t = Inr n" and "n \<le> 500"
  shows "search_loop to_list api fs decs ps tok (ys, ws, sent)
           = search_loop to_list api fs decs ps (Some t) (ys @ page_values resp, ws @ w, sent @ s)"
  using assms
  by (subst search_loop.simps) (simp add: MAXIMUM_PROJECTS_PAGE_SIZE_def)

lemma search_loop_raise:
  assumes "api_search_projects to_list api fs decs ps tok = (w, s, Inl e)"
  shows "search_loop to_list api fs decs ps tok (ys, ws, sent)
           = Some (ys, ws @ w, sent @ s, Some e)"
  using assms by (subst search_loop.simps) simp

lemma py_int_abc: "py_int ''abc'' = Inl InvalidLiteral"
  by (simp add: py_int_def int_space_def code_point_def is_digit_def Let_def
        int_max_str_digits_def)

lemma py_int_separator_501: "py_int (CHR 0x1F # ''501'') = Inl InvalidLiteral"
  by (simp add: py_int_def int_space_def code_point_def is_digit_def Let_def
        int_max_str_digits_def)

lemma api_search_projects_first:
  "1 \<le> ps \<Longrightarrow> ps \<le> 500 \<Longrightarrow>
   api_search_projects to_list api fs None ps None
     = ([], [\<lparr>filters = fs, decorations = None, pageSize = ps, pageToken = None\<rparr>],
        api \<lparr>filters = fs, decorations = None, pageSize = ps, pageToken = None\<rparr>)"
  by (simp add: api_search_projects_cases Let_def)

text \<open>
  A next-page token that \<open>int\<close> rejects is neither null nor above the maximum, and the
  loop does not go on with it: \<open>int(page_token)\<close> raises \<open>ValueError\<close> after the first
  page, and only the first request has been dispatched.
\<close>

theorem search_projects_token_abc:
  "py_int ''abc'' = Inl InvalidLiteral
   \<and> search_projects sorted_list_of_set
        (constant_server \<lparr>page_values = [''project-a''], nextPageToken = Some ''abc''\<rparr>)
        no_filters None 100
      = Some ([''project-a''], [],
              [\<lparr>filters = no_filters, decorations = None, pageSize = 100, pageToken = None\<rparr>],
              Some (ValueError (int_error_msg ''abc'' InvalidLiteral)))"
proof -
  let ?pg = "\<lparr>page_values = [''project-a''], nextPageToken = Some ''abc''\<rparr>"
  let ?b = "\<lparr>filters = no_filters, decorations = None, pageSize = 100, pageToken = None\<rparr>"
  have a: "api_search_projects sorted_list_of_set (constant_server ?pg) no_filters None 100 None
             = ([], [?b], Inr ?pg)"
    by (simp add: api_search_projects_first constant_server_def)
  have "search_loop sorted_list_of_set (constant_server ?pg) no_filters None 100 None ([], [], [])
          = Some ([] @ page_values ?pg, [] @ [], [] @ [?b],
                  Some (ValueError (int_error_msg ''abc'' InvalidLiteral)))"
    by (rule search_loop_int_error [OF a _ py_int_abc]) simp
  then show ?thesis
    by (simp add: search_projects_def py_int_abc)
qed

text \<open>
  C7. After yielding a page, the loop of \<open>search_projects\<close> stops when the next-page
  token is null or is an integer above 500; when the token is a string of at most 4300
  decimal digits with a value of at most 500, it goes on with \<open>api_search_projects\<close>
  called on that token, which dispatches a request carrying it; when \<open>int\<close> rejects the
  token, the loop ends with the \<open>ValueError\<close> of \<open>int\<close>.
\<close>

theorem search_projects_next_token:
  assumes "api_search_projects to_list api fs decs ps tok = (w, s, Inr resp)"
  shows "((nextPageToken resp = None
           \<or> (\<exists>t n. nextPageToken resp = Some t \<and> py_int t = Inr n \<and> n > 500))
          \<longrightarrow> search_loop to_list api fs decs ps tok (ys, ws, sent)
                = Some (ys @ page_values resp, ws @ w, sent @ s, None))
       \<and> (\<forall>t. nextPageToken resp = Some t \<and> isdecimal t
               \<and> length t \<le> int_max_str_digits \<and> dec_value t \<le> 500
          \<longrightarrow> search_loop to_list api fs decs ps tok (ys, ws, sent)
                = search_loop to_list api fs decs ps (Some t)
                    (ys @ page_values resp, ws @ w, sent @ s)
              \<and> (\<exists>w' body. api_search_projects to_list api fs decs ps (Some t)
                               = (w', [body], api body)
                           \<and> body = \<lparr>filters = fs,
                                 decorations = (case decs of None \<Rightarrow> None
                                   | Some d \<Rightarrow> get_decoration to_list (Some d) True),
                                 pageSize = (if ps < 1 then 1
                                             else if ps > 500 then 500 else ps),
                                 pageToken = Some t\<rparr>))
       \<and> (\<forall>t f. nextPageToken resp = Some t \<and> py_int t = Inl f
          \<longrightarrow> search_loop to_list api fs decs ps tok (ys, ws, sent)
                = Some (ys @ page_values resp, ws @ w, sent @ s,
                        Some (ValueError (int_error_msg t f))))"
proof (intro conjI impI allI)
  assume "nextPageToken resp = None
           \<or> (\<exists>t n. nextPageToken resp = Some t \<and> py_int t = Inr n \<and> n > 500)"
  from search_loop_stop [OF assms this]
  show "search_loop to_list api fs decs ps tok (ys, ws, sent)
                = Some (ys @ page_values resp, ws @ w, sent @ s, None)" .
next
  fix t assume t: "nextPageToken resp = Some t \<and> isdecimal t
               \<and> length t \<le> int_max_str_digits \<and> dec_value t \<le> 500"
  then have i: "py_int t = Inr (int (dec_value t))" by (simp add: py_int_decimal)
  from t have le: "int (dec_value t) \<le> 500" by simp
  from t have n: "nextPageToken resp = Some t" by simp
  from search_loop_continue [OF assms n i le]
  show "search_loop to_list api fs decs ps tok (ys, ws, sent)
                = search_loop to_list api fs decs ps (Some t)
                    (ys @ page_values resp, ws @ w, sent @ s)" .
next
  fix t assume t: "nextPageToken resp = Some t \<and> isdecimal t
               \<and> length t \<le> int_max_str_digits \<and> dec_value t \<le> 500"
  then show "\<exists>w' body. api_search_projects to_list api fs decs ps (Some t)
                               = (w', [body], api body)
                           \<and> body = \<lparr>filters = fs,
                                 decorations = (case decs of None \<Rightarrow> None
                                   | Some d \<Rightarrow> get_decoration to_list (Some d) True),
                                 pageSize = (if ps < 1 then 1
                                             else if ps > 500 then 500 else ps),
                                 pageToken = Some t\<rparr>"
    by (simp add: api_search_projects_cases Let_def)
next
  fix t f assume t: "nextPageToken resp = Some t \<and> py_int t = Inl f"
  then have n: "nextPageToken resp = Some t" and i: "py_int t = Inl f" by simp_all
  from search_loop_int_error [OF assms n i]
  show "search_loop to_list api fs decs ps tok (ys, ws, sent)
                = Some (ys @ page_values resp, ws @ w, sent @ s,
                        Some (ValueError (int_error_msg t f)))" .
qed

theorem search_projects_next_token_witness:
  "api_search_projects sorted_list_of_set (two_page_server ''100'') no_filters None 100 None
     = ([], [\<lparr>filters = no_filters, decorations = None, pageSize = 100, pageToken = None\<rparr>],
        Inr \<lparr>page_values = [''project-a''], nextPageToken = Some ''100''\<rparr>)
   \<and> api_search_projects sorted_list_of_set (two_page_server ''100'') no_filters None 100
        (Some ''100'')
     = ([], [\<lparr>filters = no_filters, decorations = None, pageSize = 100,
               pageToken = Some ''100''\<rparr>],
        Inr \<lparr>page_values = [''project-b''], nextPageToken = None\<rparr>)
   \<and> search_projects sorted_list_of_set (two_page_server ''100'') no_filters None 100
     = Some ([''project-a'', ''project-b''], [],
             [\<lparr>filters = no_filters, decorations = None, pageSize = 100, pageToken = None\<rparr>,
              \<lparr>filters = no_filters, decorations = None, pageSize = 100,
                 pageToken = Some ''100''\<rparr>],
             None)
   \<and> search_projects sorted_list_of_set
        (constant_server \<lparr>page_values = [''project-a''],
                          nextPageToken = Some (CHR 0x1F # ''501'')\<rparr>)
        no_filters None 100
     = Some ([''project-a''], [],
             [\<lparr>filters = no_filters, decorations = None, pageSize = 100, pageToken = None\<rparr>],
             Some (ValueError (int_error_msg (CHR 0x1F # ''501'') InvalidLiteral)))"
proof -
  let ?api = "two_page_server ''100''"
  let ?b0 = "\<lparr>filters = no_filters, decorations = None, pageSize = 100, pageToken = None\<rparr>"
  let ?b1 = "\<lparr>filters = no_filters, decorations = None, pageSize = 100,
               pageToken = Some ''100''\<rparr>"
  let ?p1 = "\<lparr>page_values = [''project-a''], nextPageToken = Some ''100''\<rparr>"
  let ?p2 = "\<lparr>page_values = [''project-b''], nextPageToken = None\<rparr>"
  let ?p3 = "\<lparr>page_values = [''project-a''], nextPageToken = Some (CHR 0x1F # ''501'')\<rparr>"
  have a0: "api_search_projects sorted_list_of_set ?api no_filters None 100 None
              = ([], [?b0], Inr ?p1)"
    by (simp add: api_search_projects_first two_page_server_def)
  have a1: "api_search_projects sorted_list_of_set ?api no_filters None 100 (Some ''100'')
              = ([], [?b1], Inr ?p2)"
    by (simp add: api_search_projects_cases Let_def decimal_examples two_page_server_def
          int_max_str_digits_def)
  have a3: "api_search_projects sorted_list_of_set (constant_server ?p3) no_filters None 100 None
              = ([], [?b0], Inr ?p3)"
    by (simp add: api_search_projects_first constant_server_def)
  have s0: "search_loop sorted_list_of_set ?api no_filters None 100 None ([], [], [])
              = search_loop sorted_list_of_set ?api no_filters None 100 (Some ''100'')
                  ([''project-a''], [], [?b0])"
    using search_projects_next_token [OF a0, of "[]" "[]" "[]"]
    by (simp add: decimal_examples int_max_str_digits_def)
  have s1: "search_loop sorted_list_of_set ?api no_filters None 100 (Some ''100'')
                  ([''project-a''], [], [?b0])
              = Some ([''project-a'', ''project-b''], [], [?b0, ?b1], None)"
    using search_projects_next_token [OF a1, of "[''project-a'']" "[]" "[?b0]"]
    by simp
  have s3: "search_loop sorted_list_of_set (constant_server ?p3) no_filters None 100 None
                  ([], [], [])
              = Some ([''project-a''], [], [?b0],
                      Some (ValueError (int_error_msg (CHR 0x1F # ''501'') InvalidLiteral)))"
    using search_projects_next_token [OF a3, of "[]" "[]" "[]"] py_int_separator_501
    by simp
  from a0 a1 s0 s1 s3 show ?thesis
    by (simp add: search_projects_def)
qed

end
